theory Spec2Isabelle
  imports Complex_Main
begin

section \<open>Numbers\<close>

text \<open>
  The calculator works on JavaScript numbers. They are modelled as exact reals: every
  finite value is a real, and rounding is left out. An operation whose JavaScript result
  is not a finite number (\<open>Infinity\<close>, \<open>-Infinity\<close> or \<open>NaN\<close>) yields \<open>None\<close>, so that
  HOL's \<open>x / 0 = 0\<close> never stands in for it.
\<close>

definition js_div :: "real \<Rightarrow> real \<Rightarrow> real option" where
  "js_div x y = (if y = 0 then None else Some (x / y))"

text \<open>
  \<open>Math.pow\<close>: a positive base takes any exponent; base zero gives 0, 1 or \<open>Infinity\<close>
  by the sign of the exponent; a negative base is defined at integral exponents only
  (\<open>NaN\<close> elsewhere).
\<close>

definition Math_pow :: "real \<Rightarrow> real \<Rightarrow> real option" where
  "Math_pow x y =
     (if 0 < x then Some (x powr y)
      else if x = 0 then (if 0 < y then Some 0 else if y = 0 then Some 1 else None)
      else if y = of_int \<lfloor>y\<rfloor> then Some (x powi \<lfloor>y\<rfloor>)
      else None)"

section \<open>Data model\<close>

record PaymentScheduleEntry =
  paymentNumber :: nat
  payment :: real
  principal :: real
  interest :: real
  remainingBalance :: real

record ExtraPaymentImpact =
  newLoanTermMonths :: real
  monthsSaved :: real
  interestSaved :: real
  totalInterestStandard :: real
  totalInterestWithExtra :: real

text \<open>
  \<open>Error msg\<close> is \<open>throw new Error(msg)\<close>. \<open>NonFinite\<close> marks a run in which a number
  left the finite reals; \<open>calculateExtraPaymentImpact\<close> never yields it
  (lemma \<open>calculateExtraPaymentImpact_finite\<close>).
\<close>

datatype error = Error string | NonFinite

section \<open>calculateMonthlyPayment, calculateTotalPayment, calculateTotalInterest\<close>

definition calculateMonthlyPayment :: "real \<Rightarrow> real \<Rightarrow> real \<Rightarrow> real option" where
  "calculateMonthlyPayment loanAmount interestRate loanTerm =
     (let monthlyRate = interestRate / 100 / 12;
          numberOfPayments = loanTerm * 12
      in if monthlyRate = 0 then js_div loanAmount numberOfPayments
         else (case Math_pow (1 + monthlyRate) numberOfPayments of
                 None \<Rightarrow> None
               | Some pw \<Rightarrow> js_div (loanAmount * (monthlyRate * pw)) (pw - 1)))"

definition calculateTotalPayment :: "real \<Rightarrow> real \<Rightarrow> real" where
  "calculateTotalPayment monthlyPayment loanTerm = monthlyPayment * loanTerm * 12"

definition calculateTotalInterest :: "real \<Rightarrow> real \<Rightarrow> real" where
  "calculateTotalInterest totalPayment loanAmount = totalPayment - loanAmount"

section \<open>generateAmortizationSchedule\<close>

text \<open>
  The \<open>for\<close> loop, with its counter \<open>number\<close> (the source's \<open>paymentNumber\<close>), the
  running, unclamped \<open>balance\<close> (the source's variable \<open>remainingBalance\<close>) and the
  schedule built so far. Only the pushed entry clamps the balance with \<open>Math.max\<close>.
\<close>

function scheduleLoop ::
  "real \<Rightarrow> real \<Rightarrow> real \<Rightarrow> nat \<Rightarrow> real \<Rightarrow> PaymentScheduleEntry list \<Rightarrow> PaymentScheduleEntry list"
where
  "scheduleLoop monthlyRate monthlyPayment totalPayments number balance schedule =
     (if real number \<le> totalPayments then
        scheduleLoop monthlyRate monthlyPayment totalPayments (number + 1)
          (balance - (monthlyPayment - balance * monthlyRate))
          (schedule @
            [\<lparr>paymentNumber = number,
              payment = monthlyPayment,
              principal = monthlyPayment - balance * monthlyRate,
              interest = balance * monthlyRate,
              remainingBalance = max 0 (balance - (monthlyPayment - balance * monthlyRate))\<rparr>])
      else schedule)"
  by pat_completeness auto
termination
proof (relation "measure (\<lambda>(r, p, t, k, b, s). nat (\<lfloor>t\<rfloor> + 1) - k)", goal_cases)
  case 1
  show ?case by simp
next
  case (2 r p t k)
  then have "int k \<le> \<lfloor>t\<rfloor>" by (simp add: le_floor_iff)
  then show ?case by simp
qed

declare scheduleLoop.simps [simp del]

definition generateAmortizationSchedule ::
  "real \<Rightarrow> real \<Rightarrow> real \<Rightarrow> real \<Rightarrow> PaymentScheduleEntry list" where
  "generateAmortizationSchedule loanAmount monthlyPayment interestRate loanTerm =
     (let monthlyRate = interestRate / 100 / 12;
          totalPayments = loanTerm * 12
      in scheduleLoop monthlyRate monthlyPayment totalPayments 1 loanAmount [])"

section \<open>calculateExtraPaymentImpact\<close>

text \<open>
  The \<open>while\<close> loop over \<open>(balance, month, totalInterestWithExtra)\<close>. The safety limit
  \<open>month < loanTermMonths * 2\<close> is the measure of its termination.
\<close>

function extraPaymentLoop ::
  "real \<Rightarrow> real \<Rightarrow> real \<Rightarrow> real \<Rightarrow> real \<Rightarrow> nat \<Rightarrow> real \<Rightarrow> real \<times> nat \<times> real"
where
  "extraPaymentLoop monthlyRate standardMonthlyPayment extraMonthlyPayment loanTermMonths
       balance month totalInterest =
     (if 0 < balance \<and> real month < loanTermMonths * 2 then
        (if balance - (standardMonthlyPayment + extraMonthlyPayment - balance * monthlyRate) < 0
         then
           extraPaymentLoop monthlyRate standardMonthlyPayment extraMonthlyPayment loanTermMonths
             0 (month + 1)
             (totalInterest + balance * monthlyRate
               + (balance - (standardMonthlyPayment + extraMonthlyPayment - balance * monthlyRate))
                 * monthlyRate)
         else
           extraPaymentLoop monthlyRate standardMonthlyPayment extraMonthlyPayment loanTermMonths
             (balance - (standardMonthlyPayment + extraMonthlyPayment - balance * monthlyRate))
             (month + 1)
             (totalInterest + balance * monthlyRate))
      else (balance, month, totalInterest))"
  by pat_completeness auto
termination
proof (relation "measure (\<lambda>(r, p, e, t, b, m, i). nat \<lceil>t * 2\<rceil> - m)", goal_cases)
  case 1
  show ?case by simp
next
  case (2 r p e t b m)
  then have "int m < \<lceil>t * 2\<rceil>" by (simp add: less_ceiling_iff)
  then show ?case by simp
next
  case (3 r p e t b m)
  then have "int m < \<lceil>t * 2\<rceil>" by (simp add: less_ceiling_iff)
  then show ?case by simp
qed

declare extraPaymentLoop.simps [simp del]

definition calculateExtraPaymentImpact ::
  "real \<Rightarrow> real \<Rightarrow> real \<Rightarrow> real \<Rightarrow> error + ExtraPaymentImpact" where
  "calculateExtraPaymentImpact loanAmount interestRate loanTermYears extraMonthlyPayment =
     (if loanAmount \<le> 0 then Inl (Error ''Loan amount must be positive'')
      else if interestRate < 0 then Inl (Error ''Interest rate cannot be negative'')
      else if loanTermYears \<le> 0 then Inl (Error ''Loan term must be positive'')
      else if extraMonthlyPayment < 0 then Inl (Error ''Extra payment cannot be negative'')
      else
        (let loanTermMonths = loanTermYears * 12 in
         case calculateMonthlyPayment loanAmount interestRate loanTermYears of
           None \<Rightarrow> Inl NonFinite
         | Some standardMonthlyPayment \<Rightarrow>
             (let totalStandardPayment = standardMonthlyPayment * loanTermMonths;
                  totalStandardInterest = totalStandardPayment - loanAmount
              in if extraMonthlyPayment = 0 then
                   Inr \<lparr>newLoanTermMonths = loanTermMonths,
                        monthsSaved = 0,
                        interestSaved = 0,
                        totalInterestStandard = totalStandardInterest,
                        totalInterestWithExtra = totalStandardInterest\<rparr>
                 else
                   (let monthlyRate = interestRate / 100 / 12 in
                    case extraPaymentLoop monthlyRate standardMonthlyPayment extraMonthlyPayment
                           loanTermMonths loanAmount 0 0 of
                      (balance, month, totalInterest) \<Rightarrow>
                        Inr \<lparr>newLoanTermMonths = real month,
                             monthsSaved = loanTermMonths - real month,
                             interestSaved = totalStandardInterest - totalInterest,
                             totalInterestStandard = totalStandardInterest,
                             totalInterestWithExtra = totalInterest\<rparr>))))"

section \<open>The recurrence behind both loops\<close>

text \<open>
  \<open>balanceAfter r p L k\<close> is the value of the loop variable holding the balance after \<open>k\<close>
  rounds of \<open>balance -= p - balance * r\<close>, started at \<open>L\<close>; it is never clamped.
  \<open>scheduleEntry r p L i\<close> is the object pushed in round \<open>i\<close> of the schedule loop.
\<close>

primrec balanceAfter :: "real \<Rightarrow> real \<Rightarrow> real \<Rightarrow> nat \<Rightarrow> real" where
  "balanceAfter r p L 0 = L"
| "balanceAfter r p L (Suc k) = balanceAfter r p L k - (p - balanceAfter r p L k * r)"

definition scheduleEntry :: "real \<Rightarrow> real \<Rightarrow> real \<Rightarrow> nat \<Rightarrow> PaymentScheduleEntry" where
  "scheduleEntry r p L i =
     \<lparr>paymentNumber = i,
      payment = p,
      principal = p - balanceAfter r p L (i - 1) * r,
      interest = balanceAfter r p L (i - 1) * r,
      remainingBalance = max 0 (balanceAfter r p L i)\<rparr>"

section \<open>The monthly payment is a finite number on validated inputs\<close>

lemma Math_pow_pos: "0 < x \<Longrightarrow> Math_pow x y = Some (x powr y)"
  by (simp add: Math_pow_def)

lemma powr_gt_one: "1 < (x::real) \<Longrightarrow> 0 < y \<Longrightarrow> 1 < x powr y"
  using powr_less_mono [of 0 y x] by simp

lemma calculateMonthlyPayment_zero_rate:
  "t \<noteq> 0 \<Longrightarrow> calculateMonthlyPayment L 0 t = Some (L / (t * 12))"
  by (simp add: calculateMonthlyPayment_def js_div_def)

lemma calculateMonthlyPayment_pos_rate:
  assumes "0 < a" "0 < t"
  shows "calculateMonthlyPayment L a t =
     Some (L * (a / 100 / 12 * (1 + a / 100 / 12) powr (t * 12))
            / ((1 + a / 100 / 12) powr (t * 12) - 1))"
proof -
  have "1 < (1 + a / 100 / 12) powr (t * 12)"
    using assms by (intro powr_gt_one) simp_all
  then show ?thesis
    using assms by (simp add: calculateMonthlyPayment_def js_div_def Math_pow_pos Let_def)
qed

lemma calculateMonthlyPayment_valid:
  assumes "0 \<le> a" "0 < t"
  shows "\<exists>p. calculateMonthlyPayment L a t = Some p"
proof (cases "a = 0")
  case True
  then show ?thesis using assms calculateMonthlyPayment_zero_rate [of t L] by simp
next
  case False
  then show ?thesis using assms calculateMonthlyPayment_pos_rate [of a t L] by simp
qed

section \<open>The payment formula\<close>

text \<open>
  Claim C1. With \<open>r = interestRate / 100 / 12\<close> and \<open>n = loanTerm * 12\<close>:
  when \<open>r = 0\<close> the function returns \<open>loanAmount / n\<close>, and otherwise
  \<open>loanAmount * (r * (1 + r)^n) / ((1 + r)^n - 1)\<close>, for every input. The first and
  third parts say so with JavaScript's division and \<open>Math.pow\<close>; the second and fourth
  give the value as a real number wherever those are finite (\<open>n \<noteq> 0\<close>, and a positive
  base \<open>1 + r\<close>).
\<close>

theorem calculateMonthlyPayment_formula:
  "(a / 100 / 12 = 0 \<longrightarrow> calculateMonthlyPayment L a t = js_div L (t * 12))
   \<and> (a / 100 / 12 = 0 \<and> t \<noteq> 0 \<longrightarrow> calculateMonthlyPayment L a t = Some (L / (t * 12)))
   \<and> (a / 100 / 12 \<noteq> 0 \<longrightarrow>
        calculateMonthlyPayment L a t =
          (case Math_pow (1 + a / 100 / 12) (t * 12) of
             None \<Rightarrow> None
           | Some pw \<Rightarrow> js_div (L * (a / 100 / 12 * pw)) (pw - 1)))
   \<and> (a / 100 / 12 \<noteq> 0 \<and> 0 < 1 + a / 100 / 12 \<and> t \<noteq> 0 \<longrightarrow>
        calculateMonthlyPayment L a t =
          Some (L * (a / 100 / 12 * (1 + a / 100 / 12) powr (t * 12))
                 / ((1 + a / 100 / 12) powr (t * 12) - 1)))"
proof (intro conjI impI)
  assume h: "a / 100 / 12 \<noteq> 0 \<and> 0 < 1 + a / 100 / 12 \<and> t \<noteq> 0"
  then have "(1 + a / 100 / 12) powr (t * 12) \<noteq> 1" by simp
  with h show "calculateMonthlyPayment L a t =
          Some (L * (a / 100 / 12 * (1 + a / 100 / 12) powr (t * 12))
                 / ((1 + a / 100 / 12) powr (t * 12) - 1))"
    by (simp add: calculateMonthlyPayment_def Let_def Math_pow_def js_div_def)
next
  assume h: "a / 100 / 12 \<noteq> 0"
  show "calculateMonthlyPayment L a t =
          (case Math_pow (1 + a / 100 / 12) (t * 12) of
             None \<Rightarrow> None
           | Some pw \<Rightarrow> js_div (L * (a / 100 / 12 * pw)) (pw - 1))"
    by (simp only: calculateMonthlyPayment_def Let_def h if_False)
qed (simp_all add: calculateMonthlyPayment_def Let_def js_div_def)

theorem calculateMonthlyPayment_formula_witness:
  "calculateMonthlyPayment 150000 0 15 = Some (150000 / 180)
   \<and> calculateMonthlyPayment 4095 1200 1 = Some 4096"
  using calculateMonthlyPayment_formula [of 0 150000 15, THEN conjunct2, THEN conjunct1]
    calculateMonthlyPayment_formula [of 1200 4095 1, THEN conjunct2, THEN conjunct2, THEN conjunct2]
  by simp

section \<open>The schedule, entry by entry\<close>

lemma scheduleLoop_entries:
  "k = Suc j \<Longrightarrow> b = balanceAfter r p L j \<Longrightarrow>
   scheduleLoop r p t k b s = s @ map (\<lambda>i. scheduleEntry r p L (Suc i)) [j ..< nat \<lfloor>t\<rfloor>]"
proof (induction r p t k b s arbitrary: j rule: scheduleLoop.induct)
  case (1 r p t k b s)
  show ?case
  proof (cases "real k \<le> t")
    case True
    then have "int k \<le> \<lfloor>t\<rfloor>" by (simp add: le_floor_iff)
    with "1.prems" have lt: "j < nat \<lfloor>t\<rfloor>" by linarith
    from "1.prems" have next_b: "b - (p - b * r) = balanceAfter r p L (Suc j)"
      by simp
    from "1.prems" have entry:
      "\<lparr>paymentNumber = k, payment = p, principal = p - b * r, interest = b * r,
        remainingBalance = max 0 (b - (p - b * r))\<rparr> = scheduleEntry r p L (Suc j)"
      by (simp add: scheduleEntry_def)
    have k1: "k + 1 = Suc (Suc j)" using "1.prems" by simp
    have "scheduleLoop r p t k b s =
            scheduleLoop r p t (k + 1) (b - (p - b * r))
              (s @ [scheduleEntry r p L (Suc j)])"
      using True entry by (subst scheduleLoop.simps) simp
    also have "\<dots> = (s @ [scheduleEntry r p L (Suc j)])
                      @ map (\<lambda>i. scheduleEntry r p L (Suc i)) [Suc j ..< nat \<lfloor>t\<rfloor>]"
      using "1.IH" [OF True k1 next_b] entry by simp
    also have "\<dots> = s @ map (\<lambda>i. scheduleEntry r p L (Suc i)) [j ..< nat \<lfloor>t\<rfloor>]"
      using lt by (simp add: upt_conv_Cons)
    finally show ?thesis .
  next
    case False
    then have "\<not> int k \<le> \<lfloor>t\<rfloor>" by (simp add: le_floor_iff)
    with "1.prems" have "[j ..< nat \<lfloor>t\<rfloor>] = []" by simp
    then show ?thesis using False by (subst scheduleLoop.simps) simp
  qed
qed

lemma generateAmortizationSchedule_entries:
  "generateAmortizationSchedule L p a t =
     map (\<lambda>i. scheduleEntry (a / 100 / 12) p L (Suc i)) [0 ..< nat \<lfloor>t * 12\<rfloor>]"
  using scheduleLoop_entries [of 1 0 L "a / 100 / 12" p L "t * 12" "[]"]
  by (simp add: generateAmortizationSchedule_def)

lemma generateAmortizationSchedule_length:
  "length (generateAmortizationSchedule L p a t) = nat \<lfloor>t * 12\<rfloor>"
  by (simp add: generateAmortizationSchedule_entries)

lemma generateAmortizationSchedule_nth:
  "i < nat \<lfloor>t * 12\<rfloor> \<Longrightarrow>
   generateAmortizationSchedule L p a t ! i = scheduleEntry (a / 100 / 12) p L (Suc i)"
  by (simp add: generateAmortizationSchedule_entries)


lemma balanceAfter_stays_nonpositive:
  "0 \<le> r \<Longrightarrow> 0 \<le> p \<Longrightarrow> balanceAfter r p L k \<le> 0 \<Longrightarrow> balanceAfter r p L (k + d) \<le> 0"
proof (induction d)
  case 0
  then show ?case by simp
next
  case (Suc d)
  then have b: "balanceAfter r p L (k + d) \<le> 0" by simp
  have "balanceAfter r p L (k + d) * r \<le> 0"
    using b Suc.prems(1) by (simp add: mult_nonpos_nonneg)
  with b Suc.prems(2) show ?case by simp
qed

section \<open>Length and numbering of the schedule\<close>




section \<open>The per-period recurrence\<close>

text \<open>
  Claim C2, amended. With \<open>r\<close> the monthly rate and the balance starting at \<open>loanAmount\<close>,
  entry \<open>i\<close> has interest \<open>balance * r\<close> and principal \<open>monthlyPayment - interest\<close>, and the
  balance carried into the next period is \<open>balance - principal\<close>, not clamped; only the
  reported \<open>remainingBalance\<close> is \<open>max 0\<close> of it. Once the carried balance is at or below 0
  (rate and payment not negative) every later entry reports \<open>remainingBalance = 0\<close>, with
  interest at most 0 and principal at least \<open>monthlyPayment\<close>.
\<close>

theorem generateAmortizationSchedule_recurrence:
  assumes "i < length (generateAmortizationSchedule L p a t)"
  shows "balanceAfter (a / 100 / 12) p L 0 = L
    \<and> interest (generateAmortizationSchedule L p a t ! i)
        = balanceAfter (a / 100 / 12) p L i * (a / 100 / 12)
    \<and> principal (generateAmortizationSchedule L p a t ! i)
        = p - interest (generateAmortizationSchedule L p a t ! i)
    \<and> balanceAfter (a / 100 / 12) p L (Suc i)
        = balanceAfter (a / 100 / 12) p L i - principal (generateAmortizationSchedule L p a t ! i)
    \<and> remainingBalance (generateAmortizationSchedule L p a t ! i)
        = max 0 (balanceAfter (a / 100 / 12) p L (Suc i))
    \<and> (0 \<le> a \<and> 0 \<le> p \<and> k \<le> i \<and> balanceAfter (a / 100 / 12) p L k \<le> 0 \<longrightarrow>
          remainingBalance (generateAmortizationSchedule L p a t ! i) = 0
          \<and> interest (generateAmortizationSchedule L p a t ! i) \<le> 0
          \<and> p \<le> principal (generateAmortizationSchedule L p a t ! i))"
proof -
  from assms have i: "i < nat \<lfloor>t * 12\<rfloor>"
    by (simp add: generateAmortizationSchedule_length)
  note nth = generateAmortizationSchedule_nth [OF i, of L p a]
  have tail: "balanceAfter (a / 100 / 12) p L i \<le> 0 \<and> balanceAfter (a / 100 / 12) p L (Suc i) \<le> 0"
    if "0 \<le> a" "0 \<le> p" "k \<le> i" "balanceAfter (a / 100 / 12) p L k \<le> 0"
  proof -
    have r: "0 \<le> a / 100 / 12" using that(1) by simp
    have "balanceAfter (a / 100 / 12) p L (k + (i - k)) \<le> 0"
      by (rule balanceAfter_stays_nonpositive [OF r that(2) that(4)])
    moreover have "balanceAfter (a / 100 / 12) p L (k + (Suc i - k)) \<le> 0"
      by (rule balanceAfter_stays_nonpositive [OF r that(2) that(4)])
    ultimately show ?thesis using that(3) by simp
  qed
  show ?thesis
  proof (intro conjI impI)
    assume h: "0 \<le> a \<and> 0 \<le> p \<and> k \<le> i \<and> balanceAfter (a / 100 / 12) p L k \<le> 0"
    then have t: "balanceAfter (a / 100 / 12) p L i \<le> 0"
       "balanceAfter (a / 100 / 12) p L (Suc i) \<le> 0" using tail by blast+
    have r: "0 \<le> a / 100 / 12" using h by simp
    show "remainingBalance (generateAmortizationSchedule L p a t ! i) = 0"
      using t(2) by (simp add: nth scheduleEntry_def max_def)
    have "balanceAfter (a / 100 / 12) p L i * (a / 100 / 12) \<le> 0"
      using t(1) r by (rule mult_nonpos_nonneg)
    then show "interest (generateAmortizationSchedule L p a t ! i) \<le> 0"
      and "p \<le> principal (generateAmortizationSchedule L p a t ! i)"
      by (simp_all add: nth scheduleEntry_def)
  qed (simp_all add: nth scheduleEntry_def)
qed

theorem generateAmortizationSchedule_recurrence_witness:
  "2 < length (generateAmortizationSchedule 100 150 1200 0.25)
   \<and> balanceAfter (1200 / 100 / 12) 150 100 2 \<le> 0
   \<and> interest (generateAmortizationSchedule 100 150 1200 0.25 ! 2) = - 50
   \<and> principal (generateAmortizationSchedule 100 150 1200 0.25 ! 2) = 200
   \<and> remainingBalance (generateAmortizationSchedule 100 150 1200 0.25 ! 2) = 0"
  using generateAmortizationSchedule_recurrence [of 2 100 150 1200 "0.25" 2]
  by (simp add: generateAmortizationSchedule_length eval_nat_numeral)

text \<open>
  The claim as stated fails for loanAmount 100, monthlyPayment 150, rate 1200 (monthly
  rate 1) and a quarter year: entry 2 reports \<open>remainingBalance = 0\<close>, yet entry 3 charges
  interest -50 on the carried balance -50 and books principal 200, so the carried balance
  is not the clamped one and the tail is not one of zero interest.
\<close>

theorem generateAmortizationSchedule_clamp_counterexample:
  "remainingBalance (generateAmortizationSchedule 100 150 1200 0.25 ! 1) = 0
   \<and> interest (generateAmortizationSchedule 100 150 1200 0.25 ! 2) = - 50
   \<and> principal (generateAmortizationSchedule 100 150 1200 0.25 ! 2) = 200
   \<and> interest (generateAmortizationSchedule 100 150 1200 0.25 ! 2)
       \<noteq> remainingBalance (generateAmortizationSchedule 100 150 1200 0.25 ! 1) * (1200 / 100 / 12)"
  by (simp add: generateAmortizationSchedule_nth scheduleEntry_def eval_nat_numeral)

section \<open>The standard schedule in closed form\<close>













section \<open>The standard schedule pays the loan off\<close>





section \<open>Validation of calculateExtraPaymentImpact\<close>

lemma calculateExtraPaymentImpact_finite:
  "calculateExtraPaymentImpact L a t e \<noteq> Inl NonFinite"
proof (cases "L \<le> 0 \<or> a < 0 \<or> t \<le> 0 \<or> e < 0")
  case True
  then show ?thesis by (auto simp: calculateExtraPaymentImpact_def)
next
  case False
  then have v: "0 \<le> a" "0 < t" by simp_all
  obtain p where p: "calculateMonthlyPayment L a t = Some p"
    using calculateMonthlyPayment_valid [OF v] by blast
  show ?thesis
    using False p
    by (auto simp: calculateExtraPaymentImpact_def Let_def split: prod.splits)
qed

text \<open>
  Claim C3. \<open>calculateExtraPaymentImpact\<close> throws exactly when \<open>loanAmount \<le> 0\<close>, or
  \<open>interestRate < 0\<close>, or \<open>loanTermYears \<le> 0\<close>, or \<open>extraMonthlyPayment < 0\<close>; the four
  checks come first, so such an input yields no result, and every other input yields one.
\<close>

theorem calculateExtraPaymentImpact_raises_iff:
  "(\<exists>msg. calculateExtraPaymentImpact L a t e = Inl (Error msg))
     = (L \<le> 0 \<or> a < 0 \<or> t \<le> 0 \<or> e < 0)
   \<and> (\<exists>res. calculateExtraPaymentImpact L a t e = Inr res)
     = (\<not> (L \<le> 0 \<or> a < 0 \<or> t \<le> 0 \<or> e < 0))"
proof (cases "L \<le> 0 \<or> a < 0 \<or> t \<le> 0 \<or> e < 0")
  case True
  then show ?thesis by (auto simp: calculateExtraPaymentImpact_def)
next
  case False
  then have v: "0 \<le> a" "0 < t" by simp_all
  obtain p where p: "calculateMonthlyPayment L a t = Some p"
    using calculateMonthlyPayment_valid [OF v] by blast
  show ?thesis
    using False p
    by (auto simp: calculateExtraPaymentImpact_def Let_def split: prod.splits)
qed

theorem calculateExtraPaymentImpact_raises_iff_witness:
  "(\<exists>msg. calculateExtraPaymentImpact 0 4 15 100 = Inl (Error msg))
   \<and> (\<exists>msg. calculateExtraPaymentImpact 250000 (-1) 15 100 = Inl (Error msg))
   \<and> (\<exists>msg. calculateExtraPaymentImpact 250000 4 0 100 = Inl (Error msg))
   \<and> (\<exists>msg. calculateExtraPaymentImpact 250000 4 15 (-50) = Inl (Error msg))
   \<and> (\<exists>res. calculateExtraPaymentImpact 250000 4 15 100 = Inr res)"
  using calculateExtraPaymentImpact_raises_iff [of 0 4 15 100]
    calculateExtraPaymentImpact_raises_iff [of 250000 "-1" 15 100]
    calculateExtraPaymentImpact_raises_iff [of 250000 4 0 100]
    calculateExtraPaymentImpact_raises_iff [of 250000 4 15 "-50"]
    calculateExtraPaymentImpact_raises_iff [of 250000 4 15 100]
  by simp

section \<open>No extra payment\<close>

text \<open>
  Claim C4. On a validated input with \<open>extraMonthlyPayment = 0\<close> the result is built
  from the standard payment \<open>p\<close> alone: \<open>newLoanTermMonths\<close> is \<open>loanTermYears * 12\<close>,
  \<open>monthsSaved\<close> and \<open>interestSaved\<close> are 0, and both interest totals are
  \<open>p * (loanTermYears * 12) - loanAmount\<close>. The loop takes no part in it.
\<close>

theorem calculateExtraPaymentImpact_zero_extra:
  assumes "0 < L" "0 \<le> a" "0 < t"
  shows "\<exists>p. calculateMonthlyPayment L a t = Some p \<and>
           calculateExtraPaymentImpact L a t 0 =
             Inr \<lparr>newLoanTermMonths = t * 12, monthsSaved = 0, interestSaved = 0,
                  totalInterestStandard = p * (t * 12) - L,
                  totalInterestWithExtra = p * (t * 12) - L\<rparr>"
proof -
  obtain p where p: "calculateMonthlyPayment L a t = Some p"
    using calculateMonthlyPayment_valid [OF assms(2,3)] by blast
  show ?thesis
    using assms p by (simp add: calculateExtraPaymentImpact_def Let_def)
qed

theorem calculateExtraPaymentImpact_zero_extra_witness:
  "calculateExtraPaymentImpact 1200 0 1 0 =
     Inr \<lparr>newLoanTermMonths = 12, monthsSaved = 0, interestSaved = 0,
          totalInterestStandard = 0, totalInterestWithExtra = 0\<rparr>"
  using calculateExtraPaymentImpact_zero_extra [of 1200 0 1]
  by (simp add: calculateMonthlyPayment_zero_rate)

section \<open>The simulation loop, step by step\<close>

lemma extraPaymentLoop_stop:
  assumes "\<not> (0 < b \<and> real m < T * 2)"
  shows "extraPaymentLoop r p e T b m i = (b, m, i)"
  by (subst extraPaymentLoop.simps) (simp only: assms if_False)

lemma extraPaymentLoop_overshoot:
  assumes "0 < b" "real m < T * 2" "b - (p + e - b * r) < 0"
  shows "extraPaymentLoop r p e T b m i = (0, m + 1, i + b * r + (b - (p + e - b * r)) * r)"
  using assms by (subst extraPaymentLoop.simps) (simp add: extraPaymentLoop_stop)

lemma extraPaymentLoop_continue:
  assumes "0 < b" "real m < T * 2" "\<not> b - (p + e - b * r) < 0"
  shows "extraPaymentLoop r p e T b m i =
           extraPaymentLoop r p e T (b - (p + e - b * r)) (m + 1) (i + b * r)"
  using assms by (subst extraPaymentLoop.simps) simp


lemma extraPaymentLoop_run:
  assumes "extraPaymentLoop r p e T b m i = (b', m', i')"
      and "b = balanceAfter r (p + e) L m"
  shows "m \<le> m'
       \<and> (\<forall>j. m \<le> j \<and> j < m' \<longrightarrow> 0 < balanceAfter r (p + e) L j)
       \<and> i' = i + (\<Sum>j = m..<m'. balanceAfter r (p + e) L j * r)
                + (if m < m' \<and> balanceAfter r (p + e) L m' < 0
                   then balanceAfter r (p + e) L m' * r else 0)
       \<and> b' = (if m < m' \<and> balanceAfter r (p + e) L m' < 0
                then 0 else balanceAfter r (p + e) L m')"
  using assms
proof (induction r p e T b m i rule: extraPaymentLoop.induct)
  case (1 r p e T b m i)
  let ?c = "balanceAfter r (p + e) L"
  show ?case
  proof (cases "0 < b \<and> real m < T * 2")
    case False
    have "(b', m', i') = (b, m, i)"
      using "1.prems"(1) extraPaymentLoop_stop [OF False, of r p e i] by simp
    then show ?thesis using "1.prems"(2) by simp
  next
    case True
    have nxt: "b - (p + e - b * r) = ?c (Suc m)"
      using "1.prems"(2) by simp
    show ?thesis
    proof (cases "b - (p + e - b * r) < 0")
      case neg: True
      have "(b', m', i') = (0, m + 1, i + b * r + (b - (p + e - b * r)) * r)"
        using True neg "1.prems"(1) by (simp add: extraPaymentLoop_overshoot)
      then have m': "m' = Suc m" and i': "i' = i + ?c m * r + ?c (Suc m) * r" and b': "b' = 0"
        using "1.prems"(2) by simp_all
      have pos: "0 < ?c m" using True "1.prems"(2) by simp
      have c_neg: "?c (Suc m) < 0" using neg nxt by simp
      have all: "\<forall>j. m \<le> j \<and> j < m' \<longrightarrow> 0 < ?c j"
        using pos m' by (auto simp: less_Suc_eq_le)
      have "i' = i + (\<Sum>j = m..<m'. ?c j * r) + (if m < m' \<and> ?c m' < 0 then ?c m' * r else 0)"
        unfolding m' i' using c_neg by simp
      moreover have "b' = (if m < m' \<and> ?c m' < 0 then 0 else ?c m')"
        unfolding m' b' using c_neg by simp
      ultimately show ?thesis using all m' by simp
    next
      case nonneg: False
      have run: "extraPaymentLoop r p e T (b - (p + e - b * r)) (m + 1) (i + b * r) = (b', m', i')"
        using True nonneg "1.prems"(1) by (simp add: extraPaymentLoop_continue)
      have nxt': "b - (p + e - b * r) = ?c (m + 1)" using nxt by simp
      note IH = "1.IH"(2) [OF True nonneg run nxt']
      then have le: "m + 1 \<le> m'"
        and all': "\<forall>j. m + 1 \<le> j \<and> j < m' \<longrightarrow> 0 < ?c j"
        and i': "i' = i + b * r + (\<Sum>j = m + 1..<m'. ?c j * r)
                    + (if m + 1 < m' \<and> ?c m' < 0 then ?c m' * r else 0)"
        and b': "b' = (if m + 1 < m' \<and> ?c m' < 0 then 0 else ?c m')"
        by simp_all
      have pos: "0 < ?c m" using True "1.prems"(2) by simp
      have all: "\<forall>j. m \<le> j \<and> j < m' \<longrightarrow> 0 < ?c j"
      proof (intro allI impI)
        fix j assume j: "m \<le> j \<and> j < m'"
        show "0 < ?c j"
        proof (cases "j = m")
          case True
          then show ?thesis using pos by simp
        next
          case False
          then show ?thesis using j all' by simp
        qed
      qed
      have lt: "m < m'" using le by simp
      have sum: "(\<Sum>j = m..<m'. ?c j * r) = ?c m * r + (\<Sum>j = m + 1..<m'. ?c j * r)"
        using lt by (simp add: sum.atLeast_Suc_lessThan)
      have cond: "(m + 1 < m' \<and> ?c m' < 0) = (m < m' \<and> ?c m' < 0)"
      proof (cases "m' = m + 1")
        case True
        then have "\<not> ?c m' < 0" using nonneg nxt by simp
        then show ?thesis by simp
      next
        case False
        then have "m + 1 < m'" using le by simp
        then show ?thesis using lt by simp
      qed
      have "i' = i + (\<Sum>j = m..<m'. ?c j * r) + (if m < m' \<and> ?c m' < 0 then ?c m' * r else 0)"
        unfolding i' cond sum using "1.prems"(2) by simp
      moreover have "b' = (if m < m' \<and> ?c m' < 0 then 0 else ?c m')"
        unfolding b' cond by simp
      ultimately show ?thesis using all lt by simp
    qed
  qed
qed

section \<open>The last simulated month\<close>

text \<open>
  Claim C6, amended. When the payment of the last simulated month \<open>m + 1\<close> drives the
  balance below zero, the loop has added \<open>monthlyRate\<close> times that negative balance to
  \<open>totalInterestWithExtra\<close>, on top of the interest on the balance at the start of the
  month: after the interest of the \<open>m\<close> months before, the last month contributes the
  rate times the sum of its starting balance and the negative balance, that is the
  interest on the starting balance less the rate times the overshoot. The balance the
  loop ends with is exactly 0. Balances are those of \<open>balanceAfter\<close> under the payment
  \<open>standardMonthlyPayment + extraMonthlyPayment\<close>.
\<close>

theorem extraPaymentLoop_final_adjustment:
  assumes "extraPaymentLoop r p e T L 0 0 = (b', Suc m, i')"
      and "balanceAfter r (p + e) L (Suc m) < 0"
  shows "b' = 0
       \<and> i' = (\<Sum>j = 0..<m. balanceAfter r (p + e) L j * r)
              + (balanceAfter r (p + e) L m + balanceAfter r (p + e) L (Suc m)) * r"
  using extraPaymentLoop_run [OF assms(1), of L] assms(2) by (simp add: algebra_simps)

theorem extraPaymentLoop_final_adjustment_witness:
  "extraPaymentLoop 1 800 800 3 700 0 0 = (0, Suc 0, 500)
   \<and> balanceAfter 1 (800 + 800) 700 0 = 700
   \<and> balanceAfter 1 (800 + 800) 700 (Suc 0) = - 200
   \<and> (500 :: real) = (700 + - 200) * 1"
proof -
  have l: "extraPaymentLoop 1 800 800 3 700 0 0 = (0, Suc 0, 500)"
    using extraPaymentLoop_overshoot [of 700 0 3 800 800 1 0] by simp
  have neg: "balanceAfter 1 (800 + 800) 700 (Suc 0) < 0" by simp
  from extraPaymentLoop_final_adjustment [OF l neg] l show ?thesis by simp
qed

text \<open>
  The claim as stated fails for loanAmount 700 at rate 1200 (monthly rate 1) over a
  quarter year with 800 extra: the standard payment is 800, the only simulated month
  starts at balance 700, whose interest is 700, but \<open>totalInterestWithExtra\<close> is 500.
\<close>

theorem calculateExtraPaymentImpact_overshoot_counterexample:
  "calculateExtraPaymentImpact 700 1200 0.25 800 =
     Inr \<lparr>newLoanTermMonths = 1, monthsSaved = 2, interestSaved = 1200,
          totalInterestStandard = 1700, totalInterestWithExtra = 500\<rparr>
   \<and> (500 :: real) \<noteq> 700 * (1200 / 100 / 12)"
proof -
  have p: "calculateMonthlyPayment 700 1200 0.25 = Some 800"
    using calculateMonthlyPayment_pos_rate [of 1200 "0.25" 700] by simp
  have l: "extraPaymentLoop 1 800 800 3 700 0 0 = (0, 1, 500)"
    using extraPaymentLoop_overshoot [of 700 0 3 800 800 1 0] by simp
  show ?thesis using p l by (simp add: calculateExtraPaymentImpact_def Let_def)
qed

section \<open>The safety limit\<close>




section \<open>The simulation against the standard schedule\<close>








section \<open>The effect of a positive extra payment\<close>




end
